theory Spec2Isabelle
  imports Complex_Main
begin

section \<open>Strings and Python values\<close>

text \<open>
  A Python \<open>str\<close> is a sequence of Unicode code points; slicing, \<open>startswith\<close> and the
  regular-expression engine all work on code points. A string is therefore a list of
  code points (natural numbers). \<open>ascii\<close> embeds an ASCII literal of the source.
\<close>

type_synonym pystr = "nat list"

definition ascii :: "string \<Rightarrow> pystr" where
  "ascii s = map of_char s"

text \<open>\<open>s.startswith(p)\<close>.\<close>

definition startswith :: "pystr \<Rightarrow> pystr \<Rightarrow> bool" where
  "startswith s p = (take (length p) s = p)"

text \<open>
  The class \<open>\s\<close> of the \<open>re\<close> module on a \<open>str\<close> pattern: the characters for which
  \<open>str.isspace\<close> holds (U+0009..U+000D, U+001C..U+0020, U+0085, U+00A0, U+1680,
  U+2000..U+200A, U+2028, U+2029, U+202F, U+205F, U+3000).
\<close>

definition is_space :: "nat \<Rightarrow> bool" where
  "is_space c =
     ((9 \<le> c \<and> c \<le> 13) \<or> (28 \<le> c \<and> c \<le> 32) \<or> c = 133 \<or> c = 160 \<or> c = 5760 \<or>
      (8192 \<le> c \<and> c \<le> 8202) \<or> c = 8232 \<or> c = 8233 \<or> c = 8239 \<or> c = 8287 \<or> c = 12288)"

text \<open>The character class \<open>[-\s()]\<close> of line 306: hyphen, whitespace, both parentheses.\<close>

definition is_separator :: "nat \<Rightarrow> bool" where
  "is_separator c = (c = 45 \<or> is_space c \<or> c = 40 \<or> c = 41)"

text \<open>
  \<open>re.sub(r'[-\s()]+', '', number)\<close>: every maximal run of separator characters is
  replaced by the empty string, which leaves exactly the characters outside the class, in
  their order.
\<close>

definition normalize :: "pystr \<Rightarrow> pystr" where
  "normalize number = filter (\<lambda>c. \<not> is_separator c) number"

text \<open>The ASCII digits \<open>0\<close>..\<open>9\<close> and the plus sign.\<close>

definition is_digit :: "nat \<Rightarrow> bool" where
  "is_digit c = (48 \<le> c \<and> c \<le> 57)"

definition is_digit_or_plus :: "nat \<Rightarrow> bool" where
  "is_digit_or_plus c = (is_digit c \<or> c = 43)"

text \<open>\<open>str(n)\<close> for an integer: decimal digits, with a minus sign when negative.\<close>

function digits_of :: "nat \<Rightarrow> pystr" where
  "digits_of n = (if n < 10 then [48 + n] else digits_of (n div 10) @ [48 + n mod 10])"
  by pat_completeness auto
termination
  by (relation "measure (\<lambda>n. n)") auto

declare digits_of.simps [simp del]

definition str_int :: "int \<Rightarrow> pystr" where
  "str_int i = (if i < 0 then 45 # digits_of (nat (- i)) else digits_of (nat i))"

text \<open>
  The values \<open>json.loads\<close> can return. A dict is an association list; \<open>d.get(k)\<close> reads
  the binding of \<open>k\<close>.
\<close>

datatype pyvalue =
    PyNone
  | PyBool bool
  | PyInt int
  | PyFloat real
  | PyStr pystr
  | PyList "pyvalue list"
  | PyDict "(pystr \<times> pyvalue) list"

text \<open>Truth value of an object in a condition (\<open>if ai_result:\<close>).\<close>

fun truthy :: "pyvalue \<Rightarrow> bool" where
  "truthy PyNone = False"
| "truthy (PyBool b) = b"
| "truthy (PyInt i) = (i \<noteq> 0)"
| "truthy (PyFloat x) = (x \<noteq> 0)"
| "truthy (PyStr s) = (s \<noteq> [])"
| "truthy (PyList xs) = (xs \<noteq> [])"
| "truthy (PyDict kvs) = (kvs \<noteq> [])"

definition py_get :: "(pystr \<times> pyvalue) list \<Rightarrow> pystr \<Rightarrow> pyvalue \<Rightarrow> pyvalue" where
  "py_get kvs k dflt = (case map_of kvs k of None \<Rightarrow> dflt | Some v \<Rightarrow> v)"

datatype py_error = AttributeError

section \<open>Data model\<close>

text \<open>
  The four risk levels written to \<open>result["risk_level"]\<close>:
  U+5B89 U+5168 (safe), U+6CE8 U+610F (caution), U+5371 U+967A (danger),
  U+7DCA U+6025 (emergency).
\<close>

datatype risk_level = Safe | Caution | Danger | Emergency

text \<open>The escalation order safe, caution, danger.\<close>

fun level_rank :: "risk_level \<Rightarrow> nat" where
  "level_rank Safe = 0"
| "level_rank Caution = 1"
| "level_rank Danger = 2"
| "level_rank Emergency = 3"

datatype area = Tokyo | Osaka | Nagoya | Sapporo | Fukuoka | Kyoto | Unknown_area

datatype number_type =
  Toll_free | IP_phone | Mobile | Navi_dial | Landline | International_number | Unknown_type

text \<open>
  The fixed texts the analysis appends to \<open>warnings\<close>, \<open>details\<close> and
  \<open>recommendations\<close>, one constructor for each format string of
  \<open>analyze_phone_number\<close>, carrying the interpolated value.
\<close>

datatype message =
    Known_scam_warning                \<comment> \<open>line 333\<close>
  | Reports_warning int               \<comment> \<open>line 341, the case's report count\<close>
  | Suspicious_prefix_warning pystr   \<comment> \<open>line 349, the prefix\<close>
  | Pattern_warning                   \<comment> \<open>line 357\<close>
  | International_warning             \<comment> \<open>line 361\<close>
  | AI_danger_warning pyvalue         \<comment> \<open>line 383, the confidence score\<close>
  | Emergency_detail                  \<comment> \<open>line 327\<close>
  | Report_detail pystr               \<comment> \<open>line 342, the case's description\<close>
  | Number_type_detail number_type    \<comment> \<open>line 367\<close>
  | Area_detail area                  \<comment> \<open>line 368\<close>
  | Never_answer_recommendation       \<comment> \<open>line 334\<close>
  | Block_number_recommendation       \<comment> \<open>line 335\<close>
  | Be_careful_recommendation         \<comment> \<open>line 350\<close>
  | Do_not_answer_unknown_recommendation  \<comment> \<open>line 362\<close>
  | No_problem_recommendation         \<comment> \<open>line 372\<close>
  | Stay_alert_recommendation         \<comment> \<open>line 373\<close>

text \<open>The caller-type classification of \<open>identify_caller_type\<close>.\<close>

datatype caller_kind =
    Kind_unknown | Kind_emergency | Kind_government | Kind_financial | Kind_customer_support
  | Kind_navi_dial | Kind_ip_phone | Kind_personal_mobile | Kind_pager_m2m
  | Kind_landline_located | Kind_landline | Kind_international

datatype confidence = Conf_low | Conf_medium | Conf_high | Conf_certain

datatype category =
    Cat_other | Cat_public | Cat_company | Cat_unknown | Cat_individual | Cat_special
  | Cat_company_or_individual | Cat_international

datatype government_org =
  Kasumigaseki | Health_education_ministries | Police_agency | Tokyo_metropolitan | Osaka_prefecture

datatype bank = MUFG | SMBC | Mizuho | Japan_post_bank

datatype caller_detail =
    Police_fire_coastguard
  | Organisation government_org
  | Bank_group bank
  | Verify_genuine
  | Toll_free_call | Mostly_companies
  | Charged_call | Support_centre
  | Person_or_company | Anonymous_ip_phone | Abused_for_fraud
  | Personal_contract | Rarely_corporate
  | IoT_devices
  | Located area | Office_or_home
  | From_abroad | International_fraud

record caller_info =
  caller_kind :: caller_kind
  caller_confidence :: confidence
  caller_details :: "caller_detail list"
  caller_category :: category

record analysis_result =
  original :: pystr
  normalized :: pystr
  risk_level :: risk_level
  warnings :: "message list"
  details :: "message list"
  recommendations :: "message list"
  timestamp :: pystr
  ai_analysis :: "pyvalue option"
  caller_type :: "caller_info option"

record report_case =
  case_number :: pystr
  case_description :: pystr
  case_timestamp :: pystr
  case_reports :: int

text \<open>
  The patterns of \<open>warning_patterns\<close> are an anchored literal (\<open>^0120\<close>) or an anchored
  literal followed by \<open>.*\<close> (\<open>^\+.*\<close>).
\<close>

datatype pattern = Anchored_literal pystr | Anchored_literal_any pystr

text \<open>
  \<open>re.match(pattern, s)\<close> is not \<open>None\<close>: the string starts with the literal; \<open>.*\<close> also
  matches the empty rest and adds no condition.
\<close>

fun re_match :: "pattern \<Rightarrow> pystr \<Rightarrow> bool" where
  "re_match (Anchored_literal l) s = startswith s l"
| "re_match (Anchored_literal_any l) s = startswith s l"

record scam_database =
  known_scam_numbers :: "pystr list"
  suspicious_prefixes :: "pystr list"
  warning_patterns :: "pattern list"
  safe_prefixes :: "pystr list"
  reported_cases :: "report_case list"

record session_state =
  check_history :: "analysis_result list"
  scam_db :: scam_database
  ai_enabled :: bool

text \<open>The session state as lines 28 to 54 initialise it.\<close>

definition initial_scam_database :: scam_database where
  "initial_scam_database =
     \<lparr>known_scam_numbers =
        [ascii ''03-1234-5678'', ascii ''0120-999-999'', ascii ''050-1111-2222'',
         ascii ''090-1234-5678''],
      suspicious_prefixes =
        [ascii ''050'', ascii ''070'', ascii ''+675'', ascii ''+234'', ascii ''+1-876''],
      warning_patterns =
        [Anchored_literal (ascii ''0120''), Anchored_literal (ascii ''0570''),
         Anchored_literal (ascii ''0990''), Anchored_literal_any (ascii ''+'')],
      safe_prefixes = [ascii ''110'', ascii ''119'', ascii ''118''],
      reported_cases = []\<rparr>"

definition initial_state :: session_state where
  "initial_state =
     \<lparr>check_history = [], scam_db = initial_scam_database, ai_enabled = False\<rparr>"

section \<open>Classification helpers\<close>

text \<open>\<open>normalized in ["110", "119", "118"]\<close>.\<close>

definition emergency_numbers :: "pystr list" where
  "emergency_numbers = [ascii ''110'', ascii ''119'', ascii ''118'']"

definition is_emergency :: "pystr \<Rightarrow> bool" where
  "is_emergency normalised = (normalised \<in> set emergency_numbers)"

text \<open>
  A scan over a literal table in its order, returning at the first key the string starts
  with (the \<open>for ... in table.items()\<close> loops with a \<open>return\<close> in the body).
\<close>

fun first_prefix :: "(pystr \<times> 'a) list \<Rightarrow> pystr \<Rightarrow> 'a option" where
  "first_prefix [] s = None"
| "first_prefix ((k, v) # kvs) s = (if startswith s k then Some v else first_prefix kvs s)"

definition area_codes :: "(pystr \<times> area) list" where
  "area_codes =
     [(ascii ''03'', Tokyo), (ascii ''06'', Osaka), (ascii ''052'', Nagoya),
      (ascii ''011'', Sapporo), (ascii ''092'', Fukuoka), (ascii ''075'', Kyoto)]"

definition identify_area :: "pystr \<Rightarrow> area" where
  "identify_area number =
     (case first_prefix area_codes number of Some a \<Rightarrow> a | None \<Rightarrow> Unknown_area)"

definition identify_number_type :: "pystr \<Rightarrow> number_type" where
  "identify_number_type normalised =
     (if startswith normalised (ascii ''0120'') \<or> startswith normalised (ascii ''0800'')
        then Toll_free
      else if startswith normalised (ascii ''050'') then IP_phone
      else if startswith normalised (ascii ''090'') \<or> startswith normalised (ascii ''080'')
              \<or> startswith normalised (ascii ''070'')
        then Mobile
      else if startswith normalised (ascii ''0570'') then Navi_dial
      else if startswith normalised (ascii ''0'') then Landline
      else if startswith normalised (ascii ''+'') then International_number
      else Unknown_type)"

definition government_patterns :: "(pystr \<times> government_org) list" where
  "government_patterns =
     [(ascii ''03-3581'', Kasumigaseki), (ascii ''03-5253'', Health_education_ministries),
      (ascii ''03-3580'', Police_agency), (ascii ''03-5321'', Tokyo_metropolitan),
      (ascii ''06-6941'', Osaka_prefecture)]"

definition bank_patterns :: "(pystr \<times> bank) list" where
  "bank_patterns =
     [(ascii ''0120-86'', MUFG), (ascii ''0120-77'', SMBC), (ascii ''0120-65'', Mizuho),
      (ascii ''0120-39'', Japan_post_bank)]"

definition unknown_caller :: caller_info where
  "unknown_caller =
     \<lparr>caller_kind = Kind_unknown, caller_confidence = Conf_low, caller_details = [],
      caller_category = Cat_other\<rparr>"

definition caller :: "caller_kind \<Rightarrow> confidence \<Rightarrow> category \<Rightarrow> caller_detail list \<Rightarrow> caller_info" where
  "caller k c g ds =
     \<lparr>caller_kind = k, caller_confidence = c, caller_details = ds, caller_category = g\<rparr>"

definition identify_caller_type :: "pystr \<Rightarrow> pystr \<Rightarrow> caller_info" where
  "identify_caller_type number normalised =
     (if is_emergency normalised
        then caller Kind_emergency Conf_certain Cat_public [Police_fire_coastguard]
      else case first_prefix government_patterns number of
        Some org \<Rightarrow> caller Kind_government Conf_high Cat_public [Organisation org]
      | None \<Rightarrow>
     (case first_prefix bank_patterns number of
        Some b \<Rightarrow> caller Kind_financial Conf_medium Cat_company [Bank_group b, Verify_genuine]
      | None \<Rightarrow>
      if startswith normalised (ascii ''0120'') \<or> startswith normalised (ascii ''0800'')
        then caller Kind_customer_support Conf_medium Cat_company
               [Toll_free_call, Mostly_companies]
      else if startswith normalised (ascii ''0570'')
        then caller Kind_navi_dial Conf_medium Cat_company [Charged_call, Support_centre]
      else if startswith normalised (ascii ''050'')
        then caller Kind_ip_phone Conf_low Cat_unknown
               [Person_or_company, Anonymous_ip_phone, Abused_for_fraud]
      else if startswith normalised (ascii ''090'') \<or> startswith normalised (ascii ''080'')
              \<or> startswith normalised (ascii ''070'')
        then caller Kind_personal_mobile Conf_high Cat_individual
               [Personal_contract, Rarely_corporate]
      else if startswith normalised (ascii ''020'')
        then caller Kind_pager_m2m Conf_high Cat_special [IoT_devices]
      else if startswith normalised (ascii ''0'')
        then (let area = identify_area number in
              if area \<noteq> Unknown_area
                then caller Kind_landline_located Conf_medium Cat_company_or_individual
                       [Located area, Office_or_home]
              else caller Kind_landline Conf_low Cat_unknown [])
      else if startswith number (ascii ''+'') \<or> startswith normalised (ascii ''010'')
        then caller Kind_international Conf_certain Cat_international
               [From_abroad, International_fraud]
      else unknown_caller))"

section \<open>The AI enrichment\<close>

text \<open>
  What the calls into the Gemini client library and \<open>json.loads\<close> did in one evaluation:
  \<^item> \<open>setup_ok\<close>: \<open>setup_gemini()\<close> returned \<open>True\<close>;
  \<^item> \<open>response_text\<close>: the text of the reply, \<open>None\<close> when \<open>generate_content\<close> or the
    access to \<open>response.text\<close> raised;
  \<^item> \<open>json_loads\<close>: the value \<open>json.loads\<close> returns, \<open>None\<close> when it raises.
\<close>

record gemini =
  setup_ok :: bool
  response_text :: "pystr option"
  json_loads :: "pystr \<Rightarrow> pyvalue option"

text \<open>
  The stub of lines 113 to 127; its texts are U+4E0D U+660E (unknown), U+4F4E (low) and
  U+5206 U+6790 U+5931 U+6557 (analysis failed).
\<close>

definition stub_result :: "pystr \<Rightarrow> pyvalue" where
  "stub_result text =
     PyDict
      [(ascii ''caller_identification'',
          PyDict [(ascii ''most_likely'', PyStr [19981, 26126]),
                  (ascii ''confidence'', PyStr [20302]),
                  (ascii ''reasoning'', PyStr [20998, 26512, 22833, 25943])]),
       (ascii ''business_type'', PyStr [19981, 26126]),
       (ascii ''ai_risk_assessment'', PyStr [19981, 26126]),
       (ascii ''confidence_score'', PyInt 0),
       (ascii ''fraud_patterns'', PyList []),
       (ascii ''similar_cases'', PyList []),
       (ascii ''recommendations'', PyList []),
       (ascii ''conversation_warnings'', PyList []),
       (ascii ''summary'', PyStr (take 200 text))]"

text \<open>
  \<open>analyze_with_gemini\<close> returns \<open>None\<close> or a value. The prompt is built inside the
  \<open>try\<close> (lines 74 to 105): it reads \<open>caller_type_info.get\<close>, which raises when the
  entry \<open>caller_type\<close> of \<open>basic_result\<close> is \<open>None\<close>; the other reads of the prompt
  cannot fail. The outer \<open>except Exception\<close> turns that and every failure of the call
  into \<open>None\<close>, the inner bare \<open>except\<close> a failure of \<open>json.loads\<close> into the stub.
\<close>

definition analyze_with_gemini :: "gemini \<Rightarrow> pystr \<Rightarrow> analysis_result \<Rightarrow> pyvalue option" where
  "analyze_with_gemini g number basic_result =
     (if \<not> setup_ok g then None
      else case caller_type basic_result of
        None \<Rightarrow> None
      | Some caller_type_info \<Rightarrow>
          (case response_text g of
             None \<Rightarrow> None
           | Some text \<Rightarrow>
               (case json_loads g text of
                  Some ai_result \<Rightarrow> Some ai_result
                | None \<Rightarrow> Some (stub_result text))))"

definition analyze_conversation_with_gemini :: "gemini \<Rightarrow> pystr \<Rightarrow> pyvalue option" where
  "analyze_conversation_with_gemini g conversation_text =
     (if \<not> setup_ok g then None
      else case response_text g of
        None \<Rightarrow> None
      | Some text \<Rightarrow>
          (case json_loads g text of
             Some v \<Rightarrow> Some v
           | None \<Rightarrow> Some (PyDict [(ascii ''explanation'', PyStr (take 200 text))])))"

section \<open>The number check\<close>

text \<open>The \<open>result\<close> dict of lines 308 to 318; \<open>now\<close> is the formatted clock reading.\<close>

definition initial_result :: "pystr \<Rightarrow> pystr \<Rightarrow> pystr \<Rightarrow> analysis_result" where
  "initial_result number normalised now =
     \<lparr>original = number, normalized = normalised, risk_level = Safe, warnings = [],
      details = [], recommendations = [], timestamp = now, ai_analysis = None,
      caller_type = None\<rparr>"

text \<open>Lines 330 to 335: the input itself is looked up in the list of known numbers.\<close>

definition check_known_scam :: "pystr list \<Rightarrow> pystr \<Rightarrow> analysis_result \<Rightarrow> analysis_result" where
  "check_known_scam known number result =
     (if number \<in> set known
      then result\<lparr>risk_level := Danger,
                  warnings := warnings result @ [Known_scam_warning],
                  recommendations := recommendations result @
                    [Never_answer_recommendation, Block_number_recommendation]\<rparr>
      else result)"

text \<open>Lines 337 to 342: the loop over the reported cases.\<close>

fun check_reported_cases :: "report_case list \<Rightarrow> pystr \<Rightarrow> analysis_result \<Rightarrow> analysis_result" where
  "check_reported_cases [] number result = result"
| "check_reported_cases (c # cases) number result =
     check_reported_cases cases number
       (if case_number c = number
        then result\<lparr>risk_level := Danger,
                    warnings := warnings result @ [Reports_warning (case_reports c)],
                    details := details result @ [Report_detail (case_description c)]\<rparr>
        else result)"

text \<open>Lines 344 to 350: the loop over the suspicious prefixes, on the normalized number.\<close>

fun check_prefixes :: "pystr list \<Rightarrow> pystr \<Rightarrow> analysis_result \<Rightarrow> analysis_result" where
  "check_prefixes [] normalised result = result"
| "check_prefixes (p # prefixes) normalised result =
     check_prefixes prefixes normalised
       (if startswith normalised p
        then result\<lparr>risk_level := (if risk_level result = Safe then Caution else risk_level result),
                    warnings := warnings result @ [Suspicious_prefix_warning p],
                    recommendations := recommendations result @ [Be_careful_recommendation]\<rparr>
        else result)"

text \<open>Lines 352 to 357: the loop over the warning patterns, on the input itself.\<close>

fun check_patterns :: "pattern list \<Rightarrow> pystr \<Rightarrow> analysis_result \<Rightarrow> analysis_result" where
  "check_patterns [] number result = result"
| "check_patterns (p # patterns) number result =
     check_patterns patterns number
       (if re_match p number
        then result\<lparr>risk_level := (if risk_level result = Safe then Caution else risk_level result),
                    warnings := warnings result @ [Pattern_warning]\<rparr>
        else result)"

text \<open>Lines 359 to 364.\<close>

definition check_international :: "pystr \<Rightarrow> pystr \<Rightarrow> analysis_result \<Rightarrow> analysis_result" where
  "check_international number normalised result =
     (if startswith number (ascii ''+'') \<or> startswith normalised (ascii ''010'')
      then result\<lparr>warnings := warnings result @ [International_warning],
                  recommendations := recommendations result @
                    [Do_not_answer_unknown_recommendation],
                  risk_level := (if risk_level result = Safe then Caution else risk_level result)\<rparr>
      else result)"

text \<open>Lines 366 to 368.\<close>

definition add_details :: "pystr \<Rightarrow> pystr \<Rightarrow> analysis_result \<Rightarrow> analysis_result" where
  "add_details number normalised result =
     result\<lparr>details := details result @
       [Number_type_detail (identify_number_type normalised),
        Area_detail (identify_area number)]\<rparr>"

text \<open>Lines 370 to 373.\<close>

definition safe_recommendations :: "analysis_result \<Rightarrow> analysis_result" where
  "safe_recommendations result =
     (if risk_level result = Safe
      then result\<lparr>recommendations := recommendations result @
             [No_problem_recommendation, Stay_alert_recommendation]\<rparr>
      else result)"

text \<open>
  Lines 375 to 383. \<open>ai_result.get\<close> exists on a dict only: a true value of another type
  raises \<open>AttributeError\<close> at line 381. The text compared with is U+5371 U+967A (danger).
\<close>

definition ai_enrichment ::
  "gemini \<Rightarrow> bool \<Rightarrow> pystr \<Rightarrow> analysis_result \<Rightarrow> py_error + analysis_result" where
  "ai_enrichment g enabled number result =
     (if enabled then
        (case analyze_with_gemini g number result of
           None \<Rightarrow> Inr result
         | Some ai_result \<Rightarrow>
             if truthy ai_result then
               (let result1 = result\<lparr>ai_analysis := Some ai_result\<rparr> in
                case ai_result of
                  PyDict kvs \<Rightarrow>
                    if py_get kvs (ascii ''ai_risk_assessment'') PyNone = PyStr [21361, 38522]
                       \<and> risk_level result1 \<noteq> Danger
                    then Inr (result1\<lparr>risk_level := Danger,
                           warnings := warnings result1 @
                             [AI_danger_warning (py_get kvs (ascii ''confidence_score'') (PyInt 0))]\<rparr>)
                    else Inr result1
                | _ \<Rightarrow> Inl AttributeError)
             else Inr result)
      else Inr result)"

text \<open>The rules between the emergency check and the AI step, in their order.\<close>

definition rule_chain :: "scam_database \<Rightarrow> pystr \<Rightarrow> pystr \<Rightarrow> analysis_result \<Rightarrow> analysis_result" where
  "rule_chain db number normalised result =
     safe_recommendations
      (add_details number normalised
        (check_international number normalised
          (check_patterns (warning_patterns db) number
            (check_prefixes (suspicious_prefixes db) normalised
              (check_reported_cases (reported_cases db) number
                (check_known_scam (known_scam_numbers db) number result))))))"

text \<open>
  \<open>analyze_phone_number(number, use_ai)\<close> on the session state \<open>st\<close>: the result and the
  state after the call, or the exception that leaves the call.
\<close>

definition analyze_phone_number ::
  "gemini \<Rightarrow> pystr \<Rightarrow> session_state \<Rightarrow> pystr \<Rightarrow> bool \<Rightarrow> py_error + analysis_result \<times> session_state" where
  "analyze_phone_number g now st number use_ai =
     (let normalised = normalize number;
          result = (initial_result number normalised now)
                     \<lparr>caller_type := Some (identify_caller_type number normalised)\<rparr>
      in if is_emergency normalised
         then Inr (result\<lparr>risk_level := Emergency,
                          details := details result @ [Emergency_detail]\<rparr>, st)
         else
           (case ai_enrichment g (use_ai \<and> ai_enabled st) number
                   (rule_chain (scam_db st) number normalised result) of
              Inl e \<Rightarrow> Inl e
            | Inr result' \<Rightarrow>
                Inr (result', st\<lparr>check_history := check_history st @ [result']\<rparr>)))"

section \<open>Report intake\<close>

text \<open>The \<open>report\<close> dict of lines 708 to 713.\<close>

definition new_report :: "pystr \<Rightarrow> pystr \<Rightarrow> pystr \<Rightarrow> pystr \<Rightarrow> report_case" where
  "new_report report_number report_category report_detail now =
     \<lparr>case_number = report_number,
      case_description = [91] @ report_category @ [93, 32] @ report_detail,
      case_timestamp = now,
      case_reports = 1\<rparr>"

text \<open>Lines 715 to 719: the position of the first case with this number.\<close>

fun find_existing :: "report_case list \<Rightarrow> pystr \<Rightarrow> nat option" where
  "find_existing [] report_number = None"
| "find_existing (c # cases) report_number =
     (if case_number c = report_number then Some 0
      else map_option Suc (find_existing cases report_number))"

text \<open>
  Lines 722 and 723: the count first, then the text with the new count in it. The format
  string is a line feed, \<open>[\<close>, U+8FFD U+52A0 U+901A U+5831 (additional report), a space,
  the count, \<open>]\<close>, a space and the detail.
\<close>

definition add_to_existing :: "report_case \<Rightarrow> pystr \<Rightarrow> report_case" where
  "add_to_existing existing report_detail =
     (let n = case_reports existing + 1
      in existing\<lparr>case_reports := n,
                  case_description := case_description existing @
                    [10, 91] @ [36861, 21152, 36890, 22577] @ [32] @ str_int n @ [93, 32] @
                    report_detail\<rparr>)"

text \<open>The body of the report form on the database (lines 707 to 725).\<close>

definition submit_report ::
  "scam_database \<Rightarrow> bool \<Rightarrow> pystr \<Rightarrow> pystr \<Rightarrow> pystr \<Rightarrow> pystr \<Rightarrow> scam_database" where
  "submit_report db submitted report_number report_detail report_category now =
     (if submitted \<and> report_number \<noteq> [] then
        (case find_existing (reported_cases db) report_number of
           Some i \<Rightarrow>
             db\<lparr>reported_cases :=
                  (reported_cases db)[i := add_to_existing (reported_cases db ! i) report_detail]\<rparr>
         | None \<Rightarrow>
             db\<lparr>reported_cases := reported_cases db @
                  [new_report report_number report_category report_detail now]\<rparr>)
      else db)"

section \<open>Properties: vocabulary\<close>

text \<open>
  A step from level \<open>l\<close> to level \<open>l'\<close> goes up (or stays) in the order safe, caution,
  danger.
\<close>

definition escalates :: "risk_level \<Rightarrow> risk_level \<Rightarrow> bool" where
  "escalates l l' = (level_rank l \<le> level_rank l' \<and> l' \<noteq> Emergency)"

fun is_dict :: "pyvalue \<Rightarrow> bool" where
  "is_dict (PyDict kvs) = True"
| "is_dict v = False"

text \<open>
  The reply of the AI service is one that line 381 can read: no text, a text that is not
  JSON, a JSON object, or a JSON value that counts as false.
\<close>

definition reply_handled :: "gemini \<Rightarrow> bool" where
  "reply_handled g =
     (case response_text g of
        None \<Rightarrow> True
      | Some text \<Rightarrow>
          (case json_loads g text of
             None \<Rightarrow> True
           | Some v \<Rightarrow> is_dict v \<or> \<not> truthy v))"

section \<open>Sample inputs\<close>

text \<open>Replies of the AI service: a text that is not JSON, short and longer than 200 characters.\<close>

definition g_plain :: gemini where
  "g_plain =
     \<lparr>setup_ok = True, response_text = Some (ascii ''no idea''), json_loads = (\<lambda>t. None)\<rparr>"

definition g_long :: gemini where
  "g_long =
     \<lparr>setup_ok = True, response_text = Some (replicate 300 120), json_loads = (\<lambda>t. None)\<rparr>"

text \<open>A reply that parses to an object rating the number as danger (U+5371 U+967A).\<close>

definition g_danger :: gemini where
  "g_danger =
     \<lparr>setup_ok = True, response_text = Some (ascii ''{...}''),
      json_loads = (\<lambda>t. Some (PyDict [(ascii ''ai_risk_assessment'', PyStr [21361, 38522]),
                                        (ascii ''confidence_score'', PyInt 90)]))\<rparr>"

text \<open>A reply that parses to a JSON array.\<close>

definition g_list :: gemini where
  "g_list =
     \<lparr>setup_ok = True, response_text = Some (ascii ''[1]''),
      json_loads = (\<lambda>t. Some (PyList [PyInt 1]))\<rparr>"

text \<open>The initial session with the AI analysis switched on.\<close>

definition ai_state :: session_state where
  "ai_state = initial_state\<lparr>ai_enabled := True\<rparr>"

text \<open>The result of line 322 for the input \<open>050-1111-2222\<close>, before any rule.\<close>

definition sample_result :: analysis_result where
  "sample_result =
     (initial_result (ascii ''050-1111-2222'') (normalize (ascii ''050-1111-2222''))
        (ascii ''2026-01-01 09:00:00''))
       \<lparr>caller_type := Some (identify_caller_type (ascii ''050-1111-2222'')
                                (normalize (ascii ''050-1111-2222'')))\<rparr>"

text \<open>
  The initial session after one report for \<open>03-1234-5678\<close> in the category U+8A50 U+6B3A
  (fraud).
\<close>

definition reported_state :: session_state where
  "reported_state =
     initial_state\<lparr>scam_db := initial_scam_database\<lparr>reported_cases :=
       [new_report (ascii ''03-1234-5678'') [35408, 27450] (ascii ''asked for a card number'')
          (ascii ''2026-01-01 09:00:00'')]\<rparr>\<rparr>"

section \<open>Evaluation rules\<close>

lemmas str_defs = ascii_def startswith_def normalize_def is_separator_def is_space_def

lemmas db_defs = initial_state_def initial_scam_database_def is_emergency_def emergency_numbers_def

section \<open>Normalization\<close>

text \<open>
  C8: normalization is idempotent: for every input string, stripping the separators from
  the already stripped string gives the same string.
\<close>

theorem normalize_idempotent: "normalize (normalize s) = normalize s"
  by (simp add: normalize_def)

text \<open>
  C6, as stated: the normalized form of every raw input consists only of digits and the
  plus sign. It does not: the input \<open>tel:090-1234-5678\<close> keeps its letters and its colon.
\<close>

theorem normalize_keeps_other_characters:
  "normalize (ascii ''tel:090-1234-5678'') = ascii ''tel:09012345678''
   \<and> \<not> list_all is_digit_or_plus (normalize (ascii ''tel:090-1234-5678''))"
  by (simp add: str_defs is_digit_or_plus_def is_digit_def)

text \<open>
  C6, amended: for every raw input string the normalized form contains no hyphen, no
  whitespace character and no parenthesis, and its characters are the other characters of
  the input; when the input consists only of digits, plus signs and those separators, the
  normalized form consists only of digits and the plus sign.
\<close>

theorem normalize_strips_separators:
  "list_all (\<lambda>c. \<not> is_separator c) (normalize s)
   \<and> set (normalize s) = {c \<in> set s. \<not> is_separator c}
   \<and> (list_all (\<lambda>c. is_digit_or_plus c \<or> is_separator c) s \<longrightarrow>
        list_all is_digit_or_plus (normalize s))"
  by (auto simp: normalize_def list_all_iff)

theorem normalize_strips_separators_witness:
  "list_all (\<lambda>c. is_digit_or_plus c \<or> is_separator c) (ascii ''+81 (90) 1234-5678'')
   \<and> normalize (ascii ''+81 (90) 1234-5678'') = ascii ''+819012345678''
   \<and> list_all is_digit_or_plus (normalize (ascii ''+81 (90) 1234-5678''))
   \<and> list_all (\<lambda>c. \<not> is_separator c) (normalize (ascii ''+81 (90) 1234-5678''))"
proof -
  have h: "list_all (\<lambda>c. is_digit_or_plus c \<or> is_separator c) (ascii ''+81 (90) 1234-5678'')"
    by (simp add: str_defs is_digit_or_plus_def is_digit_def)
  have n: "normalize (ascii ''+81 (90) 1234-5678'') = ascii ''+819012345678''"
    by (simp add: str_defs)
  from normalize_strips_separators [of "ascii ''+81 (90) 1234-5678''"] h n
  show ?thesis by blast
qed

section \<open>Escalation of the risk level\<close>

lemma escalates_refl: "l \<noteq> Emergency \<Longrightarrow> escalates l l"
  by (simp add: escalates_def)

lemma escalates_trans: "escalates a b \<Longrightarrow> escalates b c \<Longrightarrow> escalates a c"
  by (simp add: escalates_def)

lemma escalates_bump: "l \<noteq> Emergency \<Longrightarrow> escalates l (if l = Safe then Caution else l)"
  by (cases l) (simp_all add: escalates_def)

lemma escalates_Danger: "l \<noteq> Emergency \<Longrightarrow> escalates l Danger"
  by (cases l) (simp_all add: escalates_def)

lemma known_scam_escalates:
  "risk_level r \<noteq> Emergency \<Longrightarrow> escalates (risk_level r) (risk_level (check_known_scam known number r))"
  by (simp add: check_known_scam_def escalates_Danger escalates_refl)

lemma reported_cases_escalates:
  "risk_level r \<noteq> Emergency \<Longrightarrow> escalates (risk_level r) (risk_level (check_reported_cases cases number r))"
proof (induction cases arbitrary: r)
  case Nil
  then show ?case by (simp add: escalates_refl)
next
  case (Cons c cases)
  let ?r = "if case_number c = number
        then r\<lparr>risk_level := Danger,
                    warnings := warnings r @ [Reports_warning (case_reports c)],
                    details := details r @ [Report_detail (case_description c)]\<rparr>
        else r"
  have a: "escalates (risk_level r) (risk_level ?r)"
    using Cons.prems by (simp add: escalates_Danger escalates_refl)
  then have "risk_level ?r \<noteq> Emergency" by (simp add: escalates_def)
  then have "escalates (risk_level ?r) (risk_level (check_reported_cases cases number ?r))"
    by (rule Cons.IH)
  with a have "escalates (risk_level r) (risk_level (check_reported_cases cases number ?r))"
    by (rule escalates_trans)
  then show ?case by simp
qed

lemma prefixes_escalates:
  "risk_level r \<noteq> Emergency \<Longrightarrow> escalates (risk_level r) (risk_level (check_prefixes ps normalised r))"
proof (induction ps arbitrary: r)
  case Nil
  then show ?case by (simp add: escalates_refl)
next
  case (Cons p ps)
  let ?r = "if startswith normalised p
        then r\<lparr>risk_level := (if risk_level r = Safe then Caution else risk_level r),
                    warnings := warnings r @ [Suspicious_prefix_warning p],
                    recommendations := recommendations r @ [Be_careful_recommendation]\<rparr>
        else r"
  have a: "escalates (risk_level r) (risk_level ?r)"
    using Cons.prems by (simp add: escalates_bump escalates_refl)
  then have "risk_level ?r \<noteq> Emergency" by (simp add: escalates_def)
  then have "escalates (risk_level ?r) (risk_level (check_prefixes ps normalised ?r))"
    by (rule Cons.IH)
  with a have "escalates (risk_level r) (risk_level (check_prefixes ps normalised ?r))"
    by (rule escalates_trans)
  then show ?case by simp
qed

lemma patterns_escalates:
  "risk_level r \<noteq> Emergency \<Longrightarrow> escalates (risk_level r) (risk_level (check_patterns ps number r))"
proof (induction ps arbitrary: r)
  case Nil
  then show ?case by (simp add: escalates_refl)
next
  case (Cons p ps)
  let ?r = "if re_match p number
        then r\<lparr>risk_level := (if risk_level r = Safe then Caution else risk_level r),
                    warnings := warnings r @ [Pattern_warning]\<rparr>
        else r"
  have a: "escalates (risk_level r) (risk_level ?r)"
    using Cons.prems by (simp add: escalates_bump escalates_refl)
  then have "risk_level ?r \<noteq> Emergency" by (simp add: escalates_def)
  then have "escalates (risk_level ?r) (risk_level (check_patterns ps number ?r))"
    by (rule Cons.IH)
  with a have "escalates (risk_level r) (risk_level (check_patterns ps number ?r))"
    by (rule escalates_trans)
  then show ?case by simp
qed

lemma international_escalates:
  "risk_level r \<noteq> Emergency \<Longrightarrow> escalates (risk_level r) (risk_level (check_international number normalised r))"
  by (simp add: check_international_def escalates_bump escalates_refl)

lemma add_details_level: "risk_level (add_details number normalised r) = risk_level r"
  by (simp add: add_details_def)

lemma safe_recommendations_level: "risk_level (safe_recommendations r) = risk_level r"
  by (simp add: safe_recommendations_def)

lemma ai_enrichment_cases:
  assumes "ai_enrichment g enabled number r = Inr r'"
  shows "risk_level r' = risk_level r \<or> risk_level r' = Danger"
proof (cases "enabled")
  case False
  with assms show ?thesis by (simp add: ai_enrichment_def)
next
  case en: True
  show ?thesis
  proof (cases "analyze_with_gemini g number r")
    case None
    with assms en show ?thesis by (simp add: ai_enrichment_def)
  next
    case (Some v)
    show ?thesis
    proof (cases "truthy v")
      case False
      with assms en Some show ?thesis by (simp add: ai_enrichment_def)
    next
      case True
      with assms en Some show ?thesis
        by (cases v) (auto simp: ai_enrichment_def Let_def split: if_splits)
    qed
  qed
qed

lemma ai_enrichment_escalates:
  "risk_level r \<noteq> Emergency \<Longrightarrow> ai_enrichment g enabled number r = Inr r' \<Longrightarrow>
   escalates (risk_level r) (risk_level r')"
  using ai_enrichment_cases [of g enabled number r r'] escalates_Danger escalates_refl
  by metis

lemma rule_chain_escalates:
  assumes "risk_level r \<noteq> Emergency"
  shows "escalates (risk_level r) (risk_level (rule_chain db number normalised r))"
proof -
  let ?r1 = "check_known_scam (known_scam_numbers db) number r"
  let ?r2 = "check_reported_cases (reported_cases db) number ?r1"
  let ?r3 = "check_prefixes (suspicious_prefixes db) normalised ?r2"
  let ?r4 = "check_patterns (warning_patterns db) number ?r3"
  let ?r5 = "check_international number normalised ?r4"
  have e1: "escalates (risk_level r) (risk_level ?r1)"
    using assms by (rule known_scam_escalates)
  then have "risk_level ?r1 \<noteq> Emergency" by (simp add: escalates_def)
  then have e2: "escalates (risk_level ?r1) (risk_level ?r2)"
    by (rule reported_cases_escalates)
  then have "risk_level ?r2 \<noteq> Emergency" by (simp add: escalates_def)
  then have e3: "escalates (risk_level ?r2) (risk_level ?r3)"
    by (rule prefixes_escalates)
  then have "risk_level ?r3 \<noteq> Emergency" by (simp add: escalates_def)
  then have e4: "escalates (risk_level ?r3) (risk_level ?r4)"
    by (rule patterns_escalates)
  then have "risk_level ?r4 \<noteq> Emergency" by (simp add: escalates_def)
  then have e5: "escalates (risk_level ?r4) (risk_level ?r5)"
    by (rule international_escalates)
  have "escalates (risk_level r) (risk_level ?r5)"
    by (rule escalates_trans [OF escalates_trans [OF escalates_trans [OF escalates_trans [OF e1 e2] e3] e4] e5])
  then show ?thesis
    by (simp add: rule_chain_def add_details_level safe_recommendations_level)
qed

lemma escalates_from_Danger: "escalates Danger l \<Longrightarrow> l = Danger"
  by (cases l) (simp_all add: escalates_def)

lemma escalates_alerted: "escalates l l' \<Longrightarrow> l = Caution \<or> l = Danger \<Longrightarrow> l' = Caution \<or> l' = Danger"
  by (cases l; cases l') (simp_all add: escalates_def)

text \<open>
  C3: within one evaluation the risk level only goes up along safe, caution, danger: the
  level starts at safe, and no rule after that (known numbers, reported cases, suspicious
  prefixes, warning patterns, international check, the details and recommendations, the AI
  step when it returns, and so the whole chain) lowers a level already assigned or leaves
  the three levels.
\<close>

theorem risk_level_only_escalates:
  assumes "risk_level r \<noteq> Emergency"
  shows "risk_level (initial_result number normalised now) = Safe
       \<and> escalates (risk_level r) (risk_level (check_known_scam known number r))
       \<and> escalates (risk_level r) (risk_level (check_reported_cases cases number r))
       \<and> escalates (risk_level r) (risk_level (check_prefixes prefixes normalised r))
       \<and> escalates (risk_level r) (risk_level (check_patterns patterns number r))
       \<and> escalates (risk_level r) (risk_level (check_international number normalised r))
       \<and> escalates (risk_level r) (risk_level (add_details number normalised r))
       \<and> escalates (risk_level r) (risk_level (safe_recommendations r))
       \<and> (\<forall>r'. ai_enrichment g enabled number r = Inr r' \<longrightarrow>
              escalates (risk_level r) (risk_level r'))
       \<and> escalates (risk_level r) (risk_level (rule_chain db number normalised r))"
proof -
  have a: "risk_level (initial_result number normalised now) = Safe"
    by (simp add: initial_result_def)
  have b: "escalates (risk_level r) (risk_level (add_details number normalised r))"
    using assms by (simp add: add_details_level escalates_refl)
  have c: "escalates (risk_level r) (risk_level (safe_recommendations r))"
    using assms by (simp add: safe_recommendations_level escalates_refl)
  have d: "\<forall>r'. ai_enrichment g enabled number r = Inr r' \<longrightarrow>
              escalates (risk_level r) (risk_level r')"
    using assms ai_enrichment_escalates by blast
  show ?thesis
    using a b c d known_scam_escalates [OF assms] reported_cases_escalates [OF assms]
      prefixes_escalates [OF assms] patterns_escalates [OF assms]
      international_escalates [OF assms] rule_chain_escalates [OF assms]
    by blast
qed

theorem risk_level_only_escalates_witness:
  "risk_level sample_result \<noteq> Emergency
   \<and> risk_level (rule_chain initial_scam_database (ascii ''050-1111-2222'')
        (normalize (ascii ''050-1111-2222'')) sample_result) = Danger
   \<and> escalates (risk_level sample_result)
        (risk_level (rule_chain initial_scam_database (ascii ''050-1111-2222'')
           (normalize (ascii ''050-1111-2222'')) sample_result))
   \<and> escalates (risk_level sample_result)
        (risk_level (check_prefixes (suspicious_prefixes initial_scam_database)
           (normalize (ascii ''050-1111-2222'')) sample_result))
   \<and> (\<exists>r'. ai_enrichment g_danger True (ascii ''050-1111-2222'') sample_result = Inr r'
          \<and> escalates (risk_level sample_result) (risk_level r'))"
proof -
  have h: "risk_level sample_result \<noteq> Emergency"
    by (simp add: sample_result_def initial_result_def)
  have d: "risk_level (rule_chain initial_scam_database (ascii ''050-1111-2222'')
        (normalize (ascii ''050-1111-2222'')) sample_result) = Danger"
    by (simp add: sample_result_def initial_result_def rule_chain_def check_known_scam_def
        check_international_def add_details_def safe_recommendations_def db_defs str_defs)
  have e: "\<exists>r'. ai_enrichment g_danger True (ascii ''050-1111-2222'') sample_result = Inr r'"
    by (simp add: ai_enrichment_def analyze_with_gemini_def g_danger_def py_get_def Let_def
        sample_result_def initial_result_def ascii_def)
  from risk_level_only_escalates [OF h, where g = g_danger and enabled = True
      and number = "ascii ''050-1111-2222''" and normalised = "normalize (ascii ''050-1111-2222'')"
      and db = initial_scam_database and prefixes = "suspicious_prefixes initial_scam_database"]
    h d e
  show ?thesis by blast
qed

section \<open>Replies of the AI service\<close>

text \<open>
  The AI step returns when the reply is one that line 381 can read; on a result that
  carries its caller type, as every result of line 322 does, it raises otherwise.
\<close>

lemma analyze_with_gemini_Some:
  assumes "analyze_with_gemini g number r = Some v"
  shows "setup_ok g \<and> caller_type r \<noteq> None
         \<and> (\<exists>body. response_text g = Some body
               \<and> (json_loads g body = Some v
                    \<or> json_loads g body = None \<and> v = stub_result body))"
proof (cases "setup_ok g")
  case False
  with assms show ?thesis by (simp add: analyze_with_gemini_def)
next
  case s: True
  show ?thesis
  proof (cases "caller_type r")
    case None
    with assms s show ?thesis by (simp add: analyze_with_gemini_def)
  next
    case c: (Some info)
    show ?thesis
    proof (cases "response_text g")
      case None
      with assms s c show ?thesis by (simp add: analyze_with_gemini_def)
    next
      case rt: (Some body)
      show ?thesis
      proof (cases "json_loads g body")
        case None
        with assms s c rt show ?thesis by (simp add: analyze_with_gemini_def)
      next
        case (Some w)
        with assms s c rt show ?thesis by (simp add: analyze_with_gemini_def)
      qed
    qed
  qed
qed

lemma analyze_with_gemini_parsed:
  assumes "setup_ok g" and "caller_type r = Some info" and "response_text g = Some body"
    and "json_loads g body = Some v"
  shows "analyze_with_gemini g number r = Some v"
  using assms by (simp add: analyze_with_gemini_def)

lemma ai_enrichment_returns:
  assumes "enabled \<and> setup_ok g \<longrightarrow> reply_handled g"
  shows "\<exists>r'. ai_enrichment g enabled number r = Inr r'"
proof (cases "enabled")
  case False
  then show ?thesis by (simp add: ai_enrichment_def)
next
  case en: True
  show ?thesis
  proof (cases "analyze_with_gemini g number r")
    case None
    with en show ?thesis by (simp add: ai_enrichment_def)
  next
    case (Some v)
    show ?thesis
    proof (cases "truthy v")
      case False
      with en Some show ?thesis by (simp add: ai_enrichment_def)
    next
      case True
      from analyze_with_gemini_Some [OF Some] obtain body where s: "setup_ok g"
        and rt: "response_text g = Some body"
        and js: "json_loads g body = Some v \<or> json_loads g body = None \<and> v = stub_result body"
        by blast
      from en s assms have h: "reply_handled g" by simp
      from js have "is_dict v"
      proof
        assume "json_loads g body = Some v"
        with h rt True show ?thesis by (simp add: reply_handled_def)
      next
        assume "json_loads g body = None \<and> v = stub_result body"
        then show ?thesis by (simp add: stub_result_def)
      qed
      then obtain kvs where "v = PyDict kvs" by (cases v) simp_all
      with en Some True show ?thesis by (simp add: ai_enrichment_def Let_def)
    qed
  qed
qed

lemma ai_enrichment_raises:
  assumes "enabled" and "setup_ok g" and "\<not> reply_handled g" and "caller_type r = Some info"
  shows "ai_enrichment g enabled number r = Inl AttributeError"
proof -
  from assms(3) obtain body v where t: "response_text g = Some body"
    and j: "json_loads g body = Some v" and v: "\<not> is_dict v" "truthy v"
    by (auto simp: reply_handled_def split: option.splits)
  from assms(2,4) t j have "analyze_with_gemini g number r = Some v"
    by (rule analyze_with_gemini_parsed)
  with assms(1) v show ?thesis
    by (cases v) (simp_all add: ai_enrichment_def Let_def)
qed

lemma ai_enrichment_warnings:
  assumes "ai_enrichment g enabled number r = Inr r'"
  shows "set (warnings r) \<subseteq> set (warnings r')"
proof (cases "enabled")
  case False
  with assms show ?thesis by (simp add: ai_enrichment_def)
next
  case en: True
  show ?thesis
  proof (cases "analyze_with_gemini g number r")
    case None
    with assms en show ?thesis by (simp add: ai_enrichment_def)
  next
    case (Some v)
    show ?thesis
    proof (cases "truthy v")
      case False
      with assms en Some show ?thesis by (simp add: ai_enrichment_def)
    next
      case True
      with assms en Some show ?thesis
        by (cases v) (auto simp: ai_enrichment_def Let_def split: if_splits)
    qed
  qed
qed

text \<open>
  C9: when the text of the AI reply is not parseable as JSON, \<open>analyze_with_gemini\<close>,
  called as line 378 calls it (on a result that carries its caller type), returns the
  stub record whose summary is the first 200 characters of the text, and
  \<open>analyze_conversation_with_gemini\<close> returns a record whose explanation is the first 200
  characters of the text; the functions have no exception left to raise, and the number
  check that reads the stub returns as well.
\<close>

theorem unparseable_reply_gives_stub:
  assumes "setup_ok g" and "response_text g = Some body" and "json_loads g body = None"
    and "caller_type basic_result = Some caller_type_info"
  shows "analyze_with_gemini g number basic_result = Some (stub_result body)
       \<and> (\<exists>kvs. stub_result body = PyDict kvs
              \<and> py_get kvs (ascii ''summary'') PyNone = PyStr (take 200 body))
       \<and> analyze_conversation_with_gemini g conversation_text
           = Some (PyDict [(ascii ''explanation'', PyStr (take 200 body))])
       \<and> (\<exists>r'. ai_enrichment g enabled number basic_result = Inr r')"
proof -
  have a: "analyze_with_gemini g number basic_result = Some (stub_result body)"
    using assms by (simp add: analyze_with_gemini_def)
  have b: "\<exists>kvs. stub_result body = PyDict kvs
              \<and> py_get kvs (ascii ''summary'') PyNone = PyStr (take 200 body)"
    by (simp add: stub_result_def py_get_def ascii_def)
  have c: "analyze_conversation_with_gemini g conversation_text
           = Some (PyDict [(ascii ''explanation'', PyStr (take 200 body))])"
    using assms by (simp add: analyze_conversation_with_gemini_def)
  have "reply_handled g" using assms by (simp add: reply_handled_def)
  then have d: "\<exists>r'. ai_enrichment g enabled number basic_result = Inr r'"
    by (intro ai_enrichment_returns) simp
  from a b c d show ?thesis by blast
qed

theorem unparseable_reply_gives_stub_witness:
  "setup_ok g_long \<and> response_text g_long = Some (replicate 300 120)
   \<and> json_loads g_long (replicate 300 120) = None
   \<and> caller_type sample_result
       = Some (identify_caller_type (ascii ''050-1111-2222'') (normalize (ascii ''050-1111-2222'')))
   \<and> analyze_with_gemini g_long (ascii ''050-1111-2222'') sample_result
       = Some (stub_result (replicate 300 120))
   \<and> (\<exists>kvs. stub_result (replicate 300 120) = PyDict kvs
          \<and> py_get kvs (ascii ''summary'') PyNone = PyStr (replicate 200 120))
   \<and> analyze_conversation_with_gemini g_long (ascii ''hello'')
       = Some (PyDict [(ascii ''explanation'', PyStr (replicate 200 120))])
   \<and> (\<exists>r'. ai_enrichment g_long True (ascii ''050-1111-2222'') sample_result = Inr r')"
proof -
  have h1: "setup_ok g_long" and h2: "response_text g_long = Some (replicate 300 120)"
    and h3: "json_loads g_long (replicate 300 120) = None"
    by (simp_all add: g_long_def)
  have h4: "caller_type sample_result
       = Some (identify_caller_type (ascii ''050-1111-2222'') (normalize (ascii ''050-1111-2222'')))"
    by (simp add: sample_result_def)
  have t: "take 200 (replicate 300 (120::nat)) = replicate 200 120" by simp
  from unparseable_reply_gives_stub [OF h1 h2 h3 h4, of "ascii ''050-1111-2222''"
      "ascii ''hello''" True] h1 h2 h3 h4
  show ?thesis unfolding t by blast
qed

section \<open>Results of the number check\<close>

lemma reported_cases_warnings:
  "set (warnings r) \<subseteq> set (warnings (check_reported_cases cases number r))"
proof (induction cases arbitrary: r)
  case Nil
  show ?case by simp
next
  case (Cons c cases)
  let ?r = "if case_number c = number
        then r\<lparr>risk_level := Danger,
                    warnings := warnings r @ [Reports_warning (case_reports c)],
                    details := details r @ [Report_detail (case_description c)]\<rparr>
        else r"
  have "set (warnings r) \<subseteq> set (warnings ?r)" by auto
  also have "\<dots> \<subseteq> set (warnings (check_reported_cases cases number ?r))" by (rule Cons.IH)
  finally show ?case by simp
qed

lemma prefixes_warnings:
  "set (warnings r) \<subseteq> set (warnings (check_prefixes ps normalised r))"
proof (induction ps arbitrary: r)
  case Nil
  show ?case by simp
next
  case (Cons p ps)
  let ?r = "if startswith normalised p
        then r\<lparr>risk_level := (if risk_level r = Safe then Caution else risk_level r),
                    warnings := warnings r @ [Suspicious_prefix_warning p],
                    recommendations := recommendations r @ [Be_careful_recommendation]\<rparr>
        else r"
  have "set (warnings r) \<subseteq> set (warnings ?r)" by auto
  also have "\<dots> \<subseteq> set (warnings (check_prefixes ps normalised ?r))" by (rule Cons.IH)
  finally show ?case by simp
qed

lemma patterns_warnings:
  "set (warnings r) \<subseteq> set (warnings (check_patterns ps number r))"
proof (induction ps arbitrary: r)
  case Nil
  show ?case by simp
next
  case (Cons p ps)
  let ?r = "if re_match p number
        then r\<lparr>risk_level := (if risk_level r = Safe then Caution else risk_level r),
                    warnings := warnings r @ [Pattern_warning]\<rparr>
        else r"
  have "set (warnings r) \<subseteq> set (warnings ?r)" by auto
  also have "\<dots> \<subseteq> set (warnings (check_patterns ps number ?r))" by (rule Cons.IH)
  finally show ?case by simp
qed

lemma international_warnings:
  "set (warnings r) \<subseteq> set (warnings (check_international number normalised r))"
  by (auto simp: check_international_def)

lemma tail_warnings:
  "warnings (safe_recommendations (add_details number normalised r)) = warnings r"
  by (simp add: safe_recommendations_def add_details_def)

lemma tail_level:
  "risk_level (safe_recommendations (add_details number normalised r)) = risk_level r"
  by (simp add: safe_recommendations_def add_details_def)

text \<open>After a match in the list of known numbers the rule chain ends at danger, with the warning.\<close>

lemma rule_chain_known_scam:
  assumes "number \<in> set (known_scam_numbers db)"
  shows "risk_level (rule_chain db number normalised r) = Danger
         \<and> Known_scam_warning \<in> set (warnings (rule_chain db number normalised r))"
proof -
  let ?r1 = "check_known_scam (known_scam_numbers db) number r"
  let ?r2 = "check_reported_cases (reported_cases db) number ?r1"
  let ?r3 = "check_prefixes (suspicious_prefixes db) normalised ?r2"
  let ?r4 = "check_patterns (warning_patterns db) number ?r3"
  let ?r5 = "check_international number normalised ?r4"
  have l1: "risk_level ?r1 = Danger" and w1: "Known_scam_warning \<in> set (warnings ?r1)"
    using assms by (simp_all add: check_known_scam_def)
  have "escalates (risk_level ?r1) (risk_level ?r2)"
    by (rule reported_cases_escalates) (simp add: l1)
  then have l2: "risk_level ?r2 = Danger" using l1 escalates_from_Danger by simp
  have "escalates (risk_level ?r2) (risk_level ?r3)"
    by (rule prefixes_escalates) (simp add: l2)
  then have l3: "risk_level ?r3 = Danger" using l2 escalates_from_Danger by simp
  have "escalates (risk_level ?r3) (risk_level ?r4)"
    by (rule patterns_escalates) (simp add: l3)
  then have l4: "risk_level ?r4 = Danger" using l3 escalates_from_Danger by simp
  have "escalates (risk_level ?r4) (risk_level ?r5)"
    by (rule international_escalates) (simp add: l4)
  then have l5: "risk_level ?r5 = Danger" using l4 escalates_from_Danger by simp
  have w2: "Known_scam_warning \<in> set (warnings ?r2)"
    using w1 reported_cases_warnings by blast
  have w3: "Known_scam_warning \<in> set (warnings ?r3)"
    using w2 prefixes_warnings by blast
  have w4: "Known_scam_warning \<in> set (warnings ?r4)"
    using w3 patterns_warnings by blast
  have w5: "Known_scam_warning \<in> set (warnings ?r5)"
    using w4 international_warnings by blast
  show ?thesis
    unfolding rule_chain_def tail_level tail_warnings using l5 w5 by simp
qed

lemma analyze_appends_to_history:
  assumes "\<not> is_emergency (normalize number)"
    and "analyze_phone_number g now st number use_ai = Inr (r, st')"
  shows "st' = st\<lparr>check_history := check_history st @ [r]\<rparr>"
  using assms by (auto simp: analyze_phone_number_def Let_def split: sum.splits)

text \<open>The rules leave the caller type of line 322 in place.\<close>

lemma reported_cases_caller_type:
  "caller_type (check_reported_cases cases number r) = caller_type r"
  by (induction cases arbitrary: r) simp_all

lemma prefixes_caller_type:
  "caller_type (check_prefixes ps normalised r) = caller_type r"
  by (induction ps arbitrary: r) simp_all

lemma patterns_caller_type:
  "caller_type (check_patterns ps number r) = caller_type r"
  by (induction ps arbitrary: r) simp_all

lemma rule_chain_caller_type:
  "caller_type (rule_chain db number normalised r) = caller_type r"
  by (simp add: rule_chain_def safe_recommendations_def add_details_def
      check_international_def patterns_caller_type prefixes_caller_type
      reported_cases_caller_type check_known_scam_def)

lemma analyze_raises:
  assumes "\<not> is_emergency (normalize number)"
    and "use_ai" and "ai_enabled st" and "setup_ok g" and "\<not> reply_handled g"
  shows "analyze_phone_number g now st number use_ai = Inl AttributeError"
proof -
  let ?r0 = "(initial_result number (normalize number) now)
               \<lparr>caller_type := Some (identify_caller_type number (normalize number))\<rparr>"
  let ?rc = "rule_chain (scam_db st) number (normalize number) ?r0"
  have "caller_type ?rc = Some (identify_caller_type number (normalize number))"
    by (simp add: rule_chain_caller_type)
  with assms(2-5) have "ai_enrichment g (use_ai \<and> ai_enabled st) number ?rc = Inl AttributeError"
    by (intro ai_enrichment_raises) simp_all
  with assms(1) show ?thesis by (simp add: analyze_phone_number_def Let_def)
qed

text \<open>
  In the number check the result passed to the AI step carries its caller type, so a reply
  that is not JSON ends in the result as the stub.
\<close>

lemma analyze_keeps_stub:
  assumes "\<not> is_emergency (normalize number)"
    and "ai_enabled st" and "setup_ok g"
    and "response_text g = Some body" and "json_loads g body = None"
  shows "\<exists>r st'. analyze_phone_number g now st number True = Inr (r, st')
           \<and> ai_analysis r = Some (stub_result body)"
proof -
  let ?r0 = "(initial_result number (normalize number) now)
               \<lparr>caller_type := Some (identify_caller_type number (normalize number))\<rparr>"
  let ?rc = "rule_chain (scam_db st) number (normalize number) ?r0"
  have "caller_type ?rc = Some (identify_caller_type number (normalize number))"
    by (simp add: rule_chain_caller_type)
  with assms(3-5) have a: "analyze_with_gemini g number ?rc = Some (stub_result body)"
    by (simp add: analyze_with_gemini_def)
  have t: "truthy (stub_result body)" by (simp add: stub_result_def)
  have "ai_enrichment g True number ?rc = Inr (?rc\<lparr>ai_analysis := Some (stub_result body)\<rparr>)"
    unfolding ai_enrichment_def using a t
    by (simp add: stub_result_def py_get_def ascii_def Let_def)
  with assms(1,2) show ?thesis by (simp add: analyze_phone_number_def Let_def)
qed

text \<open>
  C1: for every input whose normalized form is 110, 119 or 118, \<open>analyze_phone_number\<close>
  returns a result with level emergency, and none of the later checks has run: the result
  has no warning and no recommendation, its only detail is the emergency note, and it has
  no AI analysis.
\<close>

theorem emergency_number_result:
  assumes "is_emergency (normalize number)"
  shows "\<exists>r st'. analyze_phone_number g now st number use_ai = Inr (r, st')
           \<and> risk_level r = Emergency \<and> warnings r = [] \<and> recommendations r = []
           \<and> details r = [Emergency_detail] \<and> ai_analysis r = None"
  using assms by (simp add: analyze_phone_number_def Let_def initial_result_def)

theorem emergency_number_result_witness:
  "is_emergency (normalize (ascii ''1-1-9''))
   \<and> (\<exists>r st'. analyze_phone_number g_danger (ascii ''2026-01-01 09:00:00'')
          (initial_state\<lparr>ai_enabled := True\<rparr>) (ascii ''1-1-9'') True = Inr (r, st')
        \<and> risk_level r = Emergency \<and> warnings r = [] \<and> recommendations r = []
        \<and> details r = [Emergency_detail] \<and> ai_analysis r = None)"
proof -
  have h: "is_emergency (normalize (ascii ''1-1-9''))"
    by (simp add: db_defs str_defs)
  from emergency_number_result [OF h] h show ?thesis by blast
qed

text \<open>
  A number in the list of known scam numbers whose normalized form is not an emergency
  number is rated danger, with the known-scam warning among the warnings, in every call
  that returns; and the call returns whenever the AI step is off, or the service is not
  set up, or its reply is one that line 381 can read.
\<close>

lemma known_scam_number_is_danger:
  assumes "number \<in> set (known_scam_numbers (scam_db st))"
    and "\<not> is_emergency (normalize number)"
    and "use_ai \<and> ai_enabled st \<and> setup_ok g \<longrightarrow> reply_handled g"
  shows "\<exists>r st'. analyze_phone_number g now st number use_ai = Inr (r, st')
           \<and> risk_level r = Danger \<and> Known_scam_warning \<in> set (warnings r)"
proof -
  let ?r0 = "(initial_result number (normalize number) now)
               \<lparr>caller_type := Some (identify_caller_type number (normalize number))\<rparr>"
  let ?rc = "rule_chain (scam_db st) number (normalize number) ?r0"
  from assms(3) obtain r' where r': "ai_enrichment g (use_ai \<and> ai_enabled st) number ?rc = Inr r'"
    using ai_enrichment_returns [of "use_ai \<and> ai_enabled st" g number ?rc] by auto
  have c: "risk_level ?rc = Danger" "Known_scam_warning \<in> set (warnings ?rc)"
    using rule_chain_known_scam [OF assms(1)] by simp_all
  have "escalates (risk_level ?rc) (risk_level r')"
    using r' by (rule ai_enrichment_escalates [rotated]) (simp add: c)
  then have l: "risk_level r' = Danger" using c escalates_from_Danger by simp
  have w: "Known_scam_warning \<in> set (warnings r')"
    using c ai_enrichment_warnings [OF r'] by blast
  have "analyze_phone_number g now st number use_ai
          = Inr (r', st\<lparr>check_history := check_history st @ [r']\<rparr>)"
    using assms(2) r' by (simp add: analyze_phone_number_def Let_def)
  with l w show ?thesis by blast
qed

lemma known_scam_number_is_danger_example:
  "ascii ''0120-999-999'' \<in> set (known_scam_numbers (scam_db ai_state))
   \<and> \<not> is_emergency (normalize (ascii ''0120-999-999''))
   \<and> reply_handled g_plain
   \<and> (\<exists>r st'. analyze_phone_number g_plain (ascii ''2026-01-01 00:00:00'') ai_state
          (ascii ''0120-999-999'') True = Inr (r, st')
        \<and> risk_level r = Danger \<and> Known_scam_warning \<in> set (warnings r))"
proof -
  have h1: "ascii ''0120-999-999'' \<in> set (known_scam_numbers (scam_db ai_state))"
    by (simp add: db_defs ai_state_def)
  have h2: "\<not> is_emergency (normalize (ascii ''0120-999-999''))"
    by (simp add: db_defs str_defs)
  have h3: "True \<and> ai_enabled ai_state \<and> setup_ok g_plain \<longrightarrow> reply_handled g_plain"
    by (simp add: g_plain_def reply_handled_def)
  have h4: "reply_handled g_plain"
    by (simp add: g_plain_def reply_handled_def)
  from known_scam_number_is_danger [OF h1 h2 h3] h1 h2 h4 show ?thesis by blast
qed

text \<open>
  C2, at the input \<open>0120-999-999\<close> with the AI analysis on and the reply \<open>[1]\<close>: the
  number is in the list of known scam numbers and is no emergency number, and the call
  raises \<open>AttributeError\<close> at line 381 instead of returning a result rated danger.
\<close>

theorem known_scam_check_raises:
  "ascii ''0120-999-999'' \<in> set (known_scam_numbers (scam_db ai_state))
   \<and> \<not> is_emergency (normalize (ascii ''0120-999-999''))
   \<and> analyze_phone_number g_list now ai_state (ascii ''0120-999-999'') True
       = Inl AttributeError"
proof -
  have a: "ascii ''0120-999-999'' \<in> set (known_scam_numbers (scam_db ai_state))"
    by (simp add: db_defs ai_state_def)
  have b: "\<not> is_emergency (normalize (ascii ''0120-999-999''))"
    by (simp add: db_defs str_defs)
  from b have "analyze_phone_number g_list now ai_state (ascii ''0120-999-999'') True
       = Inl AttributeError"
    by (rule analyze_raises) (simp_all add: ai_state_def initial_state_def g_list_def reply_handled_def)
  with a b show ?thesis by blast
qed

lemma startswith_appendD: "startswith s (a @ b) \<Longrightarrow> startswith s a"
  unfolding startswith_def
proof -
  assume h: "take (length (a @ b)) s = a @ b"
  have "take (length a) s = take (length a) (take (length (a @ b)) s)"
    by (simp add: min_def)
  also have "\<dots> = take (length a) (a @ b)" by (simp only: h)
  finally show "take (length a) s = a" by simp
qed

lemma startswith_normalize:
  assumes "startswith s p" and "list_all (\<lambda>c. \<not> is_separator c) p"
  shows "startswith (normalize s) p"
proof -
  from assms(1) have "p @ drop (length p) s = s"
    unfolding startswith_def by (metis append_take_drop_id)
  then have "normalize s = normalize p @ normalize (drop (length p) s)"
    by (metis normalize_def filter_append)
  moreover have "normalize p = p"
    using assms(2) by (simp add: normalize_def list_all_iff)
  ultimately show ?thesis by (simp add: startswith_def)
qed

lemma configured_prefix_on_input:
  assumes "p \<in> set (suspicious_prefixes initial_scam_database)" and "startswith number p"
  shows "startswith (normalize number) p \<or> startswith number (ascii ''+'')"
proof -
  from assms(1) consider "p = ascii ''050''" | "p = ascii ''070''" | "p = ascii ''+675''"
    | "p = ascii ''+234''" | "p = ascii ''+1-876''"
    by (auto simp: initial_scam_database_def)
  then show ?thesis
  proof cases
    case 1
    have "list_all (\<lambda>c. \<not> is_separator c) p" by (simp add: 1 str_defs)
    with assms(2) show ?thesis using startswith_normalize by blast
  next
    case 2
    have "list_all (\<lambda>c. \<not> is_separator c) p" by (simp add: 2 str_defs)
    with assms(2) show ?thesis using startswith_normalize by blast
  next
    case 3
    have "list_all (\<lambda>c. \<not> is_separator c) p" by (simp add: 3 str_defs)
    with assms(2) show ?thesis using startswith_normalize by blast
  next
    case 4
    have "list_all (\<lambda>c. \<not> is_separator c) p" by (simp add: 4 str_defs)
    with assms(2) show ?thesis using startswith_normalize by blast
  next
    case 5
    then have "p = ascii ''+'' @ ascii ''1-876''" by (simp add: ascii_def)
    with assms(2) show ?thesis using startswith_appendD by blast
  qed
qed

lemma prefixes_match_alerts:
  "risk_level r \<noteq> Emergency \<Longrightarrow> \<exists>p\<in>set ps. startswith normalised p \<Longrightarrow>
   risk_level (check_prefixes ps normalised r) = Caution
   \<or> risk_level (check_prefixes ps normalised r) = Danger"
proof (induction ps arbitrary: r)
  case Nil
  then show ?case by simp
next
  case (Cons p ps)
  let ?r = "r\<lparr>risk_level := (if risk_level r = Safe then Caution else risk_level r),
                    warnings := warnings r @ [Suspicious_prefix_warning p],
                    recommendations := recommendations r @ [Be_careful_recommendation]\<rparr>"
  show ?case
  proof (cases "startswith normalised p")
    case True
    have a: "risk_level ?r = Caution \<or> risk_level ?r = Danger"
      using Cons.prems(1) by (cases "risk_level r") simp_all
    then have "risk_level ?r \<noteq> Emergency" by auto
    then have "escalates (risk_level ?r) (risk_level (check_prefixes ps normalised ?r))"
      by (rule prefixes_escalates)
    then have "risk_level (check_prefixes ps normalised ?r) = Caution
               \<or> risk_level (check_prefixes ps normalised ?r) = Danger"
      using a by (rule escalates_alerted)
    with True show ?thesis by simp
  next
    case False
    with Cons.prems(2) have "\<exists>p\<in>set ps. startswith normalised p" by simp
    with Cons.IH [OF Cons.prems(1)] False show ?thesis by simp
  qed
qed

lemma international_plus_alerts:
  assumes "risk_level r \<noteq> Emergency" and "startswith number (ascii ''+'')"
  shows "risk_level (check_international number normalised r) = Caution
         \<or> risk_level (check_international number normalised r) = Danger"
  using assms by (cases "risk_level r") (simp_all add: check_international_def)

lemma rule_chain_suspicious_prefix:
  assumes "risk_level r \<noteq> Emergency"
    and "(\<exists>p\<in>set (suspicious_prefixes db). startswith normalised p) \<or> startswith number (ascii ''+'')"
  shows "risk_level (rule_chain db number normalised r) = Caution
         \<or> risk_level (rule_chain db number normalised r) = Danger"
proof -
  let ?r1 = "check_known_scam (known_scam_numbers db) number r"
  let ?r2 = "check_reported_cases (reported_cases db) number ?r1"
  let ?r3 = "check_prefixes (suspicious_prefixes db) normalised ?r2"
  let ?r4 = "check_patterns (warning_patterns db) number ?r3"
  let ?r5 = "check_international number normalised ?r4"
  have e1: "escalates (risk_level r) (risk_level ?r1)"
    using assms(1) by (rule known_scam_escalates)
  then have n1: "risk_level ?r1 \<noteq> Emergency" by (simp add: escalates_def)
  then have e2: "escalates (risk_level ?r1) (risk_level ?r2)"
    by (rule reported_cases_escalates)
  then have n2: "risk_level ?r2 \<noteq> Emergency" by (simp add: escalates_def)
  then have e3: "escalates (risk_level ?r2) (risk_level ?r3)"
    by (rule prefixes_escalates)
  then have n3: "risk_level ?r3 \<noteq> Emergency" by (simp add: escalates_def)
  then have e4: "escalates (risk_level ?r3) (risk_level ?r4)"
    by (rule patterns_escalates)
  then have n4: "risk_level ?r4 \<noteq> Emergency" by (simp add: escalates_def)
  then have e5: "escalates (risk_level ?r4) (risk_level ?r5)"
    by (rule international_escalates)
  from assms(2) have "risk_level ?r5 = Caution \<or> risk_level ?r5 = Danger"
  proof
    assume "\<exists>p\<in>set (suspicious_prefixes db). startswith normalised p"
    with n2 have "risk_level ?r3 = Caution \<or> risk_level ?r3 = Danger"
      by (rule prefixes_match_alerts)
    with e4 have "risk_level ?r4 = Caution \<or> risk_level ?r4 = Danger"
      by (rule escalates_alerted)
    with e5 show ?thesis by (rule escalates_alerted)
  next
    assume "startswith number (ascii ''+'')"
    with n4 show ?thesis by (rule international_plus_alerts)
  qed
  then show ?thesis
    unfolding rule_chain_def tail_level .
qed

text \<open>
  An input that is not an emergency number and matches a configured suspicious prefix is
  rated caution or danger, never safe, in every call that returns. The match is the one
  the code tests (the normalized number starts with the prefix); for the prefixes the
  session configures, a match of the input as typed gives the same. The call returns under
  the condition stated for the known numbers.
\<close>

lemma suspicious_prefix_at_least_caution:
  assumes "(\<exists>p\<in>set (suspicious_prefixes (scam_db st)). startswith (normalize number) p)
           \<or> (suspicious_prefixes (scam_db st) = suspicious_prefixes initial_scam_database
               \<and> (\<exists>p\<in>set (suspicious_prefixes (scam_db st)). startswith number p))"
    and "\<not> is_emergency (normalize number)"
    and "use_ai \<and> ai_enabled st \<and> setup_ok g \<longrightarrow> reply_handled g"
  shows "\<exists>r st'. analyze_phone_number g now st number use_ai = Inr (r, st')
           \<and> (risk_level r = Caution \<or> risk_level r = Danger)"
proof -
  let ?r0 = "(initial_result number (normalize number) now)
               \<lparr>caller_type := Some (identify_caller_type number (normalize number))\<rparr>"
  let ?rc = "rule_chain (scam_db st) number (normalize number) ?r0"
  have m: "(\<exists>p\<in>set (suspicious_prefixes (scam_db st)). startswith (normalize number) p)
           \<or> startswith number (ascii ''+'')"
    using assms(1) configured_prefix_on_input by metis
  have "risk_level ?r0 \<noteq> Emergency" by (simp add: initial_result_def)
  then have c: "risk_level ?rc = Caution \<or> risk_level ?rc = Danger"
    using m by (rule rule_chain_suspicious_prefix)
  from assms(3) obtain r' where r': "ai_enrichment g (use_ai \<and> ai_enabled st) number ?rc = Inr r'"
    using ai_enrichment_returns [of "use_ai \<and> ai_enabled st" g number ?rc] by auto
  have "escalates (risk_level ?rc) (risk_level r')"
    using r' c by (intro ai_enrichment_escalates [of ?rc g _ number r']) auto
  then have l: "risk_level r' = Caution \<or> risk_level r' = Danger"
    using c by (rule escalates_alerted)
  have "analyze_phone_number g now st number use_ai
          = Inr (r', st\<lparr>check_history := check_history st @ [r']\<rparr>)"
    using assms(2) r' by (simp add: analyze_phone_number_def Let_def)
  with l show ?thesis by blast
qed

lemma suspicious_prefix_at_least_caution_example:
  "startswith (normalize (ascii ''070 5555 0000'')) (ascii ''070'')
   \<and> ascii ''070'' \<in> set (suspicious_prefixes (scam_db initial_state))
   \<and> \<not> is_emergency (normalize (ascii ''070 5555 0000''))
   \<and> (\<exists>r st'. analyze_phone_number g_plain (ascii ''2026-01-01 09:00:00'') initial_state
          (ascii ''070 5555 0000'') False = Inr (r, st')
        \<and> (risk_level r = Caution \<or> risk_level r = Danger))"
proof -
  have h0: "startswith (normalize (ascii ''070 5555 0000'')) (ascii ''070'')"
    by (simp add: str_defs)
  have h0': "ascii ''070'' \<in> set (suspicious_prefixes (scam_db initial_state))"
    by (simp add: db_defs)
  from h0 h0' have h1: "(\<exists>p\<in>set (suspicious_prefixes (scam_db initial_state)).
             startswith (normalize (ascii ''070 5555 0000'')) p)
           \<or> (suspicious_prefixes (scam_db initial_state) = suspicious_prefixes initial_scam_database
               \<and> (\<exists>p\<in>set (suspicious_prefixes (scam_db initial_state)).
                     startswith (ascii ''070 5555 0000'') p))"
    by blast
  have h2: "\<not> is_emergency (normalize (ascii ''070 5555 0000''))"
    by (simp add: db_defs str_defs)
  have h3: "False \<and> ai_enabled initial_state \<and> setup_ok g_plain \<longrightarrow> reply_handled g_plain"
    by simp
  from suspicious_prefix_at_least_caution [OF h1 h2 h3] h0 h0' h2 show ?thesis by blast
qed

text \<open>
  C4, at the input \<open>070 5555 0000\<close> with the AI analysis on and the reply \<open>[1]\<close>: the
  normalized number starts with the configured prefix \<open>070\<close> and is no emergency number,
  and the call raises \<open>AttributeError\<close> at line 381 instead of returning a result rated
  caution or danger.
\<close>

theorem suspicious_prefix_check_raises:
  "ascii ''070'' \<in> set (suspicious_prefixes (scam_db ai_state))
   \<and> startswith (normalize (ascii ''070 5555 0000'')) (ascii ''070'')
   \<and> \<not> is_emergency (normalize (ascii ''070 5555 0000''))
   \<and> analyze_phone_number g_list now ai_state (ascii ''070 5555 0000'') True
       = Inl AttributeError"
proof -
  have a: "ascii ''070'' \<in> set (suspicious_prefixes (scam_db ai_state))"
    by (simp add: db_defs ai_state_def)
  have b: "startswith (normalize (ascii ''070 5555 0000'')) (ascii ''070'')"
    by (simp add: str_defs)
  have c: "\<not> is_emergency (normalize (ascii ''070 5555 0000''))"
    by (simp add: db_defs str_defs)
  from c have "analyze_phone_number g_list now ai_state (ascii ''070 5555 0000'') True
       = Inl AttributeError"
    by (rule analyze_raises) (simp_all add: ai_state_def initial_state_def g_list_def reply_handled_def)
  with a b c show ?thesis by blast
qed

text \<open>
  C10: the list of known numbers and the reported cases are searched for the input as
  typed, not for its normalized form: with \<open>03-1234-5678\<close> in the list and reported once,
  that input is rated danger with both warnings, while \<open>0312345678\<close>, which has the same
  normalized form, is rated safe with no warning.
\<close>

theorem lookups_use_the_input_as_typed:
  "normalize (ascii ''03-1234-5678'') = normalize (ascii ''0312345678'')
   \<and> (\<exists>r st'. analyze_phone_number g now reported_state (ascii ''03-1234-5678'') False = Inr (r, st')
         \<and> risk_level r = Danger \<and> warnings r = [Known_scam_warning, Reports_warning 1])
   \<and> (\<exists>r st'. analyze_phone_number g now reported_state (ascii ''0312345678'') False = Inr (r, st')
         \<and> risk_level r = Safe \<and> warnings r = [])"
proof -
  have a: "normalize (ascii ''03-1234-5678'') = normalize (ascii ''0312345678'')"
    by (simp add: str_defs)
  have b: "\<exists>r st'. analyze_phone_number g now reported_state (ascii ''03-1234-5678'') False = Inr (r, st')
         \<and> risk_level r = Danger \<and> warnings r = [Known_scam_warning, Reports_warning 1]"
    by (simp add: analyze_phone_number_def Let_def initial_result_def rule_chain_def
        check_known_scam_def check_international_def add_details_def safe_recommendations_def
        ai_enrichment_def reported_state_def new_report_def db_defs str_defs)
  have c: "\<exists>r st'. analyze_phone_number g now reported_state (ascii ''0312345678'') False = Inr (r, st')
         \<and> risk_level r = Safe \<and> warnings r = []"
    by (simp add: analyze_phone_number_def Let_def initial_result_def rule_chain_def
        check_known_scam_def check_international_def add_details_def safe_recommendations_def
        ai_enrichment_def reported_state_def new_report_def db_defs str_defs)
  from a b c show ?thesis by blast
qed

text \<open>
  C7, at the input \<open>110\<close>: the result of an emergency check is returned at line 328,
  before line 386 appends to the history; the session state after the call is the state
  before it.
\<close>

theorem emergency_check_not_recorded:
  "\<exists>r. analyze_phone_number g now st (ascii ''110'') use_ai = Inr (r, st)
        \<and> original r = ascii ''110'' \<and> risk_level r = Emergency"
  by (simp add: analyze_phone_number_def Let_def initial_result_def db_defs str_defs)

section \<open>Reports\<close>

lemma str_int_2: "str_int 2 = [50]"
  by (simp add: str_int_def digits_of.simps)

lemma find_existing_None: "find_existing cases n = None \<longleftrightarrow> (\<forall>c\<in>set cases. case_number c \<noteq> n)"
  by (induction cases) auto

lemma find_existing_append_new:
  "find_existing cases n = None \<Longrightarrow> case_number c = n \<Longrightarrow>
   find_existing (cases @ [c]) n = Some (length cases)"
  by (induction cases) (auto split: if_splits)

lemma find_existing_append_other:
  "find_existing cases m = None \<Longrightarrow> case_number c \<noteq> m \<Longrightarrow> find_existing (cases @ [c]) m = None"
  by (induction cases) (auto split: if_splits)

lemma first_report:
  assumes "n \<noteq> []" and "find_existing (reported_cases db) n = None"
  shows "reported_cases (submit_report db True n d c t) = reported_cases db @ [new_report n c d t]"
  using assms by (simp add: submit_report_def)

lemma repeated_report:
  assumes "n \<noteq> []" and "find_existing cases n = None" and "case_number c = n"
    and "reported_cases db = cases @ [c] @ rest"
  shows "reported_cases (submit_report db True n d cat t) = cases @ [add_to_existing c d] @ rest"
proof -
  have "find_existing (cases @ [c] @ rest) n = Some (length cases)"
    using assms(2,3) by (induction cases) (auto split: if_splits)
  then show ?thesis
    using assms(1,4) by (simp add: submit_report_def list_update_append nth_append)
qed

lemma second_report_description:
  "add_to_existing (new_report n c1 d1 t1) d2 =
     \<lparr>case_number = n,
      case_description = [91] @ c1 @ [93, 32] @ d1 @
        [10, 91, 36861, 21152, 36890, 22577, 32, 50, 93, 32] @ d2,
      case_timestamp = t1, case_reports = 2\<rparr>"
  by (simp add: add_to_existing_def new_report_def Let_def str_int_2)

text \<open>
  C5: two reports for the same number, which had no case before, give exactly one case for
  it, with count 2 and a description that is the first report's description followed by
  the second report's text (joined by a line feed and the marker with the new count);
  reports for two distinct numbers give two cases with count 1 each, and a later report
  for the first number changes the first case only.
\<close>

theorem two_reports:
  assumes "n \<noteq> []" and "m \<noteq> []" and "n \<noteq> m"
    and "find_existing (reported_cases db) n = None"
    and "find_existing (reported_cases db) m = None"
  shows "reported_cases (submit_report (submit_report db True n d1 c1 t1) True n d2 c2 t2)
           = reported_cases db @
               [\<lparr>case_number = n,
                 case_description = [91] @ c1 @ [93, 32] @ d1 @
                   [10, 91, 36861, 21152, 36890, 22577, 32, 50, 93, 32] @ d2,
                 case_timestamp = t1, case_reports = 2\<rparr>]
       \<and> length (filter (\<lambda>c. case_number c = n)
            (reported_cases (submit_report (submit_report db True n d1 c1 t1) True n d2 c2 t2))) = 1
       \<and> reported_cases (submit_report (submit_report db True n d1 c1 t1) True m d2 c2 t2)
           = reported_cases db @
               [\<lparr>case_number = n, case_description = [91] @ c1 @ [93, 32] @ d1,
                 case_timestamp = t1, case_reports = 1\<rparr>,
                \<lparr>case_number = m, case_description = [91] @ c2 @ [93, 32] @ d2,
                 case_timestamp = t2, case_reports = 1\<rparr>]
       \<and> reported_cases
           (submit_report (submit_report (submit_report db True n d1 c1 t1) True m d2 c2 t2)
              True n d3 c3 t3)
           = reported_cases db @
               [add_to_existing (new_report n c1 d1 t1) d3,
                \<lparr>case_number = m, case_description = [91] @ c2 @ [93, 32] @ d2,
                 case_timestamp = t2, case_reports = 1\<rparr>]"
proof -
  let ?db1 = "submit_report db True n d1 c1 t1"
  let ?db2 = "submit_report ?db1 True m d2 c2 t2"
  have s1: "reported_cases ?db1 = reported_cases db @ [new_report n c1 d1 t1]"
    using assms(1,4) by (rule first_report)
  have num: "case_number (new_report n c1 d1 t1) = n" by (simp add: new_report_def)
  have a: "reported_cases (submit_report ?db1 True n d2 c2 t2)
             = reported_cases db @ [add_to_existing (new_report n c1 d1 t1) d2]"
    using repeated_report [OF assms(1,4) num, of ?db1 "[]" d2 c2 t2] s1 by simp
  have none: "\<forall>c\<in>set (reported_cases db). case_number c \<noteq> n"
    using assms(4) by (simp add: find_existing_None)
  have b: "length (filter (\<lambda>c. case_number c = n)
            (reported_cases (submit_report ?db1 True n d2 c2 t2))) = 1"
    using none by (simp add: a second_report_description)
  have "find_existing (reported_cases ?db1) m = None"
    unfolding s1 using assms(3,5) by (intro find_existing_append_other) (simp_all add: new_report_def)
  with assms(2) have s2: "reported_cases ?db2 = reported_cases ?db1 @ [new_report m c2 d2 t2]"
    by (rule first_report)
  have c: "reported_cases ?db2
           = reported_cases db @
               [\<lparr>case_number = n, case_description = [91] @ c1 @ [93, 32] @ d1,
                 case_timestamp = t1, case_reports = 1\<rparr>,
                \<lparr>case_number = m, case_description = [91] @ c2 @ [93, 32] @ d2,
                 case_timestamp = t2, case_reports = 1\<rparr>]"
    by (simp add: s2 s1 new_report_def)
  have "reported_cases ?db2
          = reported_cases db @ [new_report n c1 d1 t1] @ [new_report m c2 d2 t2]"
    by (simp add: s2 s1)
  from repeated_report [OF assms(1,4) num this, of d3 c3 t3]
  have d: "reported_cases (submit_report ?db2 True n d3 c3 t3)
           = reported_cases db @
               [add_to_existing (new_report n c1 d1 t1) d3,
                \<lparr>case_number = m, case_description = [91] @ c2 @ [93, 32] @ d2,
                 case_timestamp = t2, case_reports = 1\<rparr>]"
    by (simp add: new_report_def)
  from a b c d show ?thesis by (simp add: second_report_description)
qed

theorem two_reports_witness:
  "ascii ''090-0000-1111'' \<noteq> [] \<and> ascii ''080-2222-3333'' \<noteq> []
   \<and> ascii ''090-0000-1111'' \<noteq> ascii ''080-2222-3333''
   \<and> find_existing (reported_cases initial_scam_database) (ascii ''090-0000-1111'') = None
   \<and> find_existing (reported_cases initial_scam_database) (ascii ''080-2222-3333'') = None
   \<and> reported_cases
        (submit_report
          (submit_report initial_scam_database True (ascii ''090-0000-1111'') (ascii ''prize'')
             [35408, 27450] (ascii ''2026-01-01 09:00:00''))
          True (ascii ''090-0000-1111'') (ascii ''again'') [35408, 27450]
          (ascii ''2026-01-02 09:00:00''))
      = [\<lparr>case_number = ascii ''090-0000-1111'',
          case_description = [91, 35408, 27450, 93, 32] @ ascii ''prize'' @
            [10, 91, 36861, 21152, 36890, 22577, 32, 50, 93, 32] @ ascii ''again'',
          case_timestamp = ascii ''2026-01-01 09:00:00'', case_reports = 2\<rparr>]
   \<and> map case_reports (reported_cases
        (submit_report
          (submit_report initial_scam_database True (ascii ''090-0000-1111'') (ascii ''prize'')
             [35408, 27450] (ascii ''2026-01-01 09:00:00''))
          True (ascii ''080-2222-3333'') (ascii ''again'') [35408, 27450]
          (ascii ''2026-01-02 09:00:00''))) = [1, 1]"
proof -
  have h1: "ascii ''090-0000-1111'' \<noteq> []" and h2: "ascii ''080-2222-3333'' \<noteq> []"
    and h3: "ascii ''090-0000-1111'' \<noteq> ascii ''080-2222-3333''"
    by (simp_all add: ascii_def)
  have h4: "find_existing (reported_cases initial_scam_database) (ascii ''090-0000-1111'') = None"
    and h5: "find_existing (reported_cases initial_scam_database) (ascii ''080-2222-3333'') = None"
    by (simp_all add: initial_scam_database_def)
  have e: "reported_cases initial_scam_database = []"
    by (simp add: initial_scam_database_def)
  from two_reports [OF h1 h2 h3 h4 h5, of "ascii ''prize''" "[35408, 27450]"
      "ascii ''2026-01-01 09:00:00''" "ascii ''again''" "[35408, 27450]"
      "ascii ''2026-01-02 09:00:00''"]
    h1 h2 h3 h4 h5
  show ?thesis by (simp add: e)
qed

end
